theory Spec2Isabelle
  imports Complex_Main "HOL-Library.Log_Nat"
begin

section \<open>Python values\<close>

subsection \<open>Floats: IEEE 754 binary64, round to nearest, ties to even\<close>

text \<open>
  A Python \<^verbatim>\<open>float\<close> is a binary64 value. A finite one is kept as its sign
  (\<open>True\<close> for negative) and its magnitude, an exact rational; the two zeros differ in
  the sign only. Every operation computes the exact rational result and rounds it once.
\<close>

datatype pyfloat = Fin bool rat | Inf bool | NaN

datatype error =
    HTTPException nat string
  | InvalidId
  | TypeError
  | ValueError
  | OverflowError

definition round_half_even :: "rat \<Rightarrow> int" where
  "round_half_even x =
     (let f = \<lfloor>x\<rfloor>; d = x - of_int f
      in if d < 1 / 2 then f
         else if 1 / 2 < d then f + 1
         else if even f then f else f + 1)"

text \<open>\<open>ilog2 x\<close> is the binary exponent of a positive rational: \<open>2 powi e \<le> x < 2 powi (e + 1)\<close>.\<close>

definition ilog2 :: "rat \<Rightarrow> int" where
  "ilog2 x =
     (let (p, q) = quotient_of x; e = bitlen p - bitlen q
      in if 2 powi e \<le> x then e else e - 1)"

text \<open>
  Rounding a magnitude to binary64: 53 significant bits, the spacing never below
  \<open>2 powi (- 1074)\<close> (subnormals), and \<open>None\<close> when the rounded value reaches
  \<open>2 ^ 1024\<close> (overflow).
\<close>

definition round_binary64 :: "rat \<Rightarrow> rat option" where
  "round_binary64 x =
     (if x = 0 then Some 0
      else let u = 2 powi (max (ilog2 x) (- 1022) - 52);
               r = of_int (round_half_even (x / u)) * u
           in if of_int (2 ^ 1024) \<le> r then None else Some r)"

definition rnd :: "bool \<Rightarrow> rat \<Rightarrow> pyfloat" where
  "rnd s x = (case round_binary64 x of None \<Rightarrow> Inf s | Some r \<Rightarrow> Fin s r)"

definition signed :: "bool \<Rightarrow> rat \<Rightarrow> rat" where
  "signed s m = (if s then - m else m)"

text \<open>A float literal such as \<^verbatim>\<open>9.99\<close>: the double nearest to the decimal.\<close>

definition float_lit :: "rat \<Rightarrow> pyfloat" where
  "float_lit x = rnd (x < 0) \<bar>x\<bar>"

fun fmul :: "pyfloat \<Rightarrow> pyfloat \<Rightarrow> pyfloat" where
  "fmul NaN _ = NaN"
| "fmul _ NaN = NaN"
| "fmul (Inf s) (Inf t) = Inf (s \<noteq> t)"
| "fmul (Inf s) (Fin t n) = (if n = 0 then NaN else Inf (s \<noteq> t))"
| "fmul (Fin s m) (Inf t) = (if m = 0 then NaN else Inf (s \<noteq> t))"
| "fmul (Fin s m) (Fin t n) = rnd (s \<noteq> t) (m * n)"

fun fadd :: "pyfloat \<Rightarrow> pyfloat \<Rightarrow> pyfloat" where
  "fadd NaN _ = NaN"
| "fadd _ NaN = NaN"
| "fadd (Inf s) (Inf t) = (if s = t then Inf s else NaN)"
| "fadd (Inf s) (Fin t n) = Inf s"
| "fadd (Fin s m) (Inf t) = Inf t"
| "fadd (Fin s m) (Fin t n) =
     (let v = signed s m + signed t n
      in if v = 0 then Fin (s \<and> t) 0 else rnd (v < 0) \<bar>v\<bar>)"

text \<open>
  \<^verbatim>\<open>float(i)\<close> for an \<^verbatim>\<open>int\<close>, also the conversion that \<^verbatim>\<open>float * int\<close> applies to its
  right operand: correctly rounded, \<^verbatim>\<open>OverflowError\<close> when the integer is too large.
\<close>

definition int_to_float :: "int \<Rightarrow> error + pyfloat" where
  "int_to_float i =
     (case round_binary64 \<bar>of_int i\<bar> of
        None \<Rightarrow> Inl OverflowError
      | Some r \<Rightarrow> Inr (Fin (i < 0) r))"

text \<open>
  \<^verbatim>\<open>round(x, ndigits)\<close> on a float with \<open>ndigits \<ge> 0\<close>: the exact value is rounded to
  \<open>ndigits\<close> decimals, ties to even, the decimal is converted back to the nearest double
  and the sign is kept; infinities and NaN round to themselves. CPython raises
  \<^verbatim>\<open>OverflowError\<close> when the conversion back overflows, which needs a negative
  \<open>ndigits\<close>: a double of magnitude \<open>2 ^ 52\<close> or more is an integer and rounds to itself.
\<close>

definition py_round :: "pyfloat \<Rightarrow> nat \<Rightarrow> pyfloat" where
  "py_round x ndigits =
     (case x of
        Fin s m \<Rightarrow> rnd s (of_int (round_half_even (m * 10 ^ ndigits)) / 10 ^ ndigits)
      | _ \<Rightarrow> x)"

subsection \<open>ObjectId\<close>

text \<open>
  \<^verbatim>\<open>bson.ObjectId\<close> keeps the bytes of an identifier. From a \<^verbatim>\<open>str\<close> the constructor
  checks \<^verbatim>\<open>len(oid) == 24\<close> and takes \<^verbatim>\<open>bytes.fromhex(oid)\<close>, raising \<^verbatim>\<open>InvalidId\<close> when
  either fails. \<^verbatim>\<open>bytes.fromhex\<close> reads pairs of hexadecimal digits (either case) and skips
  ASCII whitespace before each pair, not inside one; so the 24 hexadecimal digits of a
  store-native identifier give 12 bytes, and a 24-character string with whitespace between
  whole pairs gives fewer. \<^verbatim>\<open>ObjectId.is_valid\<close> tries the constructor and reports whether
  it succeeded.
\<close>

datatype objectid = ObjectId "nat list"

definition hex_digit :: "char \<Rightarrow> nat option" where
  "hex_digit c =
     (let n = (of_char c :: nat)
      in if 48 \<le> n \<and> n \<le> 57 then Some (n - 48)
         else if 97 \<le> n \<and> n \<le> 102 then Some (n - 87)
         else if 65 \<le> n \<and> n \<le> 70 then Some (n - 55)
         else None)"

text \<open>ASCII whitespace: tab, line feed, vertical tab, form feed, carriage return, space.\<close>

definition is_space :: "char \<Rightarrow> bool" where
  "is_space c = (let n = (of_char c :: nat) in n = 32 \<or> (9 \<le> n \<and> n \<le> 13))"

fun fromhex :: "string \<Rightarrow> nat list option" where
  "fromhex [] = Some []"
| "fromhex (c # cs) =
     (if is_space c then fromhex cs
      else (case cs of
              [] \<Rightarrow> None
            | d # ds \<Rightarrow>
                (case (hex_digit c, hex_digit d) of
                   (Some h, Some l) \<Rightarrow> map_option ((#) (16 * h + l)) (fromhex ds)
                 | _ \<Rightarrow> None)))"

definition ObjectId_new :: "string \<Rightarrow> error + objectid" where
  "ObjectId_new oid =
     (if length oid = 24
      then (case fromhex oid of Some bs \<Rightarrow> Inr (ObjectId bs) | None \<Rightarrow> Inl InvalidId)
      else Inl InvalidId)"

definition ObjectId_is_valid :: "string \<Rightarrow> bool" where
  "ObjectId_is_valid oid =
     (if oid = [] then False
      else (case ObjectId_new oid of Inr _ \<Rightarrow> True | Inl _ \<Rightarrow> False))"

subsection \<open>Documents\<close>

datatype pyval =
    VNone
  | VBool bool
  | VInt int
  | VFloat pyfloat
  | VStr string
  | VObjectId objectid
  | VList "pyval list"
  | VDict "(string \<times> pyval) list"

type_synonym document = "(string \<times> pyval) list"

text \<open>A database is its collections by name; a collection that was never written is empty.\<close>

type_synonym database = "string \<Rightarrow> document list"

text \<open>
  What the endpoints take from their surroundings without fixing it: the parser behind
  \<^verbatim>\<open>float(s)\<close> for a string (\<open>None\<close> where Python raises \<^verbatim>\<open>ValueError\<close>), and the
  identifier that the store generates for the next inserted document.
\<close>

record runtime =
  str_to_float :: "string \<Rightarrow> pyfloat option"
  new_id :: "database \<Rightarrow> pyval"

definition py_float :: "runtime \<Rightarrow> pyval \<Rightarrow> error + pyfloat" where
  "py_float rt v =
     (case v of
        VFloat x \<Rightarrow> Inr x
      | VInt i \<Rightarrow> int_to_float i
      | VBool b \<Rightarrow> Inr (Fin False (if b then 1 else 0))
      | VStr s \<Rightarrow> (case str_to_float rt s of None \<Rightarrow> Inl ValueError | Some x \<Rightarrow> Inr x)
      | _ \<Rightarrow> Inl TypeError)"

definition dict_get :: "document \<Rightarrow> string \<Rightarrow> pyval \<Rightarrow> pyval" where
  "dict_get d k dflt = (case map_of d k of None \<Rightarrow> dflt | Some v \<Rightarrow> v)"

text \<open>
  \<^verbatim>\<open>collection.find_one(filter)\<close> with an equality filter: the first document of the
  collection that carries every pair of the filter.
\<close>

definition matches :: "document \<Rightarrow> document \<Rightarrow> bool" where
  "matches flt d = list_all (\<lambda>(k, v). map_of d k = Some v) flt"

definition find_one :: "document list \<Rightarrow> document \<Rightarrow> document option" where
  "find_one coll flt = find (matches flt) coll"

text \<open>
  Modelled from the spec: \<^verbatim>\<open>database.create_document\<close> is imported by \<^verbatim>\<open>main.py\<close> but is
  not among the sources. The spec gives the store's \<^verbatim>\<open>insert(collection, document) -> identifier\<close>:
  the document is added to the named collection under a generated identifier, which is
  returned; nothing else changes.
\<close>

definition create_document :: "runtime \<Rightarrow> string \<Rightarrow> document \<Rightarrow> database \<Rightarrow> pyval \<times> database" where
  "create_document rt collection_name data db =
     (let i = new_id rt db
      in (i, db(collection_name := db collection_name @ [(''_id'', i) # data])))"

section \<open>The endpoints of main.py\<close>

definition to_object_id :: "string \<Rightarrow> error + objectid" where
  "to_object_id id_str =
     (case ObjectId_new id_str of
        Inr oid \<Rightarrow> Inr oid
      | Inl _ \<Rightarrow> Inl (HTTPException 400 ''Invalid ID format''))"

record MenuItemIn =
  restaurant_id :: string
  title :: string
  description :: "string option"
  price :: pyfloat
  image_url :: "string option"
  vegetarian :: bool

record OrderItemIn =
  menu_item_id :: string
  quantity :: int

record OrderIn =
  customer_name :: string
  address :: string
  order_restaurant_id :: string
  items :: "OrderItemIn list"

definition opt_str :: "string option \<Rightarrow> pyval" where
  "opt_str s = (case s of None \<Rightarrow> VNone | Some t \<Rightarrow> VStr t)"

definition MenuItemIn_model_dump :: "MenuItemIn \<Rightarrow> document" where
  "MenuItemIn_model_dump p =
     [(''restaurant_id'', VStr (restaurant_id p)),
      (''title'', VStr (title p)),
      (''description'', opt_str (description p)),
      (''price'', VFloat (price p)),
      (''image_url'', opt_str (image_url p)),
      (''vegetarian'', VBool (vegetarian p))]"

definition OrderItemIn_model_dump :: "OrderItemIn \<Rightarrow> document" where
  "OrderItemIn_model_dump i =
     [(''menu_item_id'', VStr (menu_item_id i)), (''quantity'', VInt (quantity i))]"

text \<open>
  The lookup both endpoints write inline (lines 124 and 136):
  \<^verbatim>\<open>coll.find_one({"_id": to_object_id(s)}) if ObjectId.is_valid(s) else coll.find_one({"_id": s})\<close>.
\<close>

definition lookup_id :: "document list \<Rightarrow> string \<Rightarrow> error + document option" where
  "lookup_id coll s =
     (if ObjectId_is_valid s
      then (case to_object_id s of
              Inl e \<Rightarrow> Inl e
            | Inr oid \<Rightarrow> Inr (find_one coll [(''_id'', VObjectId oid)]))
      else Inr (find_one coll [(''_id'', VStr s)]))"

text \<open>
  \<^verbatim>\<open>not doc\<close> on the result of \<^verbatim>\<open>find_one\<close> holds for \<^verbatim>\<open>None\<close> and for the empty
  dict; \<open>truthy\<close> gives the document in the other case.
\<close>

definition truthy :: "document option \<Rightarrow> document option" where
  "truthy doc = (case doc of None \<Rightarrow> None | Some d \<Rightarrow> if d = [] then None else Some d)"

definition create_menu_item ::
    "runtime \<Rightarrow> MenuItemIn \<Rightarrow> database \<Rightarrow> (error + document) \<times> database" where
  "create_menu_item rt payload db =
     (case lookup_id (db ''restaurant'') (restaurant_id payload) of
        Inl e \<Rightarrow> (Inl e, db)
      | Inr rest \<Rightarrow>
          (case truthy rest of
             None \<Rightarrow> (Inl (HTTPException 404 ''Restaurant not found''), db)
           | Some _ \<Rightarrow>
               (let (mid, db') = create_document rt ''menuitem'' (MenuItemIn_model_dump payload) db
                in (Inr [(''id'', mid)], db'))))"

text \<open>
  The loop of \<^verbatim>\<open>place_order\<close> (lines 135 to 139), with the running total as accumulator.
  It only reads the menu item collection.
\<close>

fun order_loop ::
    "runtime \<Rightarrow> document list \<Rightarrow> OrderItemIn list \<Rightarrow> pyfloat \<Rightarrow> error + pyfloat" where
  "order_loop rt coll [] tot = Inr tot"
| "order_loop rt coll (item # rest) tot =
     (case lookup_id coll (menu_item_id item) of
        Inl e \<Rightarrow> Inl e
      | Inr mi \<Rightarrow>
          (case truthy mi of
             None \<Rightarrow> Inl (HTTPException 404 (''Menu item not found: '' @ menu_item_id item))
           | Some d \<Rightarrow>
               (case py_float rt (dict_get d ''price'' (VInt 0)) of
                  Inl e \<Rightarrow> Inl e
                | Inr p \<Rightarrow>
                    (case int_to_float (quantity item) of
                       Inl e \<Rightarrow> Inl e
                     | Inr q \<Rightarrow> order_loop rt coll rest (fadd tot (fmul p q))))))"

text \<open>
  After the loop (lines 141 to 150). The two subscripts of the response read keys that the
  dict literal above them sets.
\<close>

definition place_order ::
    "runtime \<Rightarrow> OrderIn \<Rightarrow> database \<Rightarrow> (error + document) \<times> database" where
  "place_order rt payload db =
     (case order_loop rt (db ''menuitem'') (items payload) (Fin False 0) of
        Inl e \<Rightarrow> (Inl e, db)
      | Inr tot \<Rightarrow>
          (let order_doc =
                 [(''customer_name'', VStr (customer_name payload)),
                  (''address'', VStr (address payload)),
                  (''restaurant_id'', VStr (order_restaurant_id payload)),
                  (''items'', VList (map (VDict \<circ> OrderItemIn_model_dump) (items payload))),
                  (''total'', VFloat (py_round tot 2)),
                  (''status'', VStr ''placed'')];
               (oid, db') = create_document rt ''order'' order_doc db
           in (Inr [(''id'', oid),
                    (''total'', dict_get order_doc ''total'' VNone),
                    (''status'', dict_get order_doc ''status'' VNone)], db')))"

section \<open>Reading the claims\<close>

text \<open>
  A line resolves when the lookup of its identifier finds a document. \<open>priced\<close> relates
  a line to the two factors of its contribution: the stored price, as \<^verbatim>\<open>float\<close> reads it
  (0 where the document has no price), and the quantity converted to a float.
\<close>

definition resolves :: "document list \<Rightarrow> OrderItemIn \<Rightarrow> bool" where
  "resolves coll item =
     (case lookup_id coll (menu_item_id item) of Inr (Some d) \<Rightarrow> True | _ \<Rightarrow> False)"

definition priced :: "runtime \<Rightarrow> document list \<Rightarrow> OrderItemIn \<Rightarrow> pyfloat \<times> pyfloat \<Rightarrow> bool" where
  "priced rt coll item pq =
     (case lookup_id coll (menu_item_id item) of
        Inr (Some d) \<Rightarrow>
          py_float rt (dict_get d ''price'' (VInt 0)) = Inr (fst pq) \<and>
          int_to_float (quantity item) = Inr (snd pq)
      | _ \<Rightarrow> False)"

text \<open>
  The bytes that a string of hexadecimal digits alone denotes, two digits to a byte, the
  first digit the high half.
\<close>

definition hex_value :: "char \<Rightarrow> nat" where
  "hex_value c = (case hex_digit c of Some n \<Rightarrow> n | None \<Rightarrow> 0)"

fun hex_bytes :: "string \<Rightarrow> nat list" where
  "hex_bytes [] = []"
| "hex_bytes [c] = []"
| "hex_bytes (c # d # cs) = (16 * hex_value c + hex_value d) # hex_bytes cs"

text \<open>
  The products of the lines, and the sum that \<^verbatim>\<open>total = 0.0\<close> followed by
  \<^verbatim>\<open>total += x\<close> for each line computes: float additions from the left.
\<close>

definition line_totals :: "(pyfloat \<times> pyfloat) list \<Rightarrow> pyfloat list" where
  "line_totals pqs = map (\<lambda>(p, q). fmul p q) pqs"

definition py_sum :: "pyfloat list \<Rightarrow> pyfloat" where
  "py_sum xs = foldl fadd (Fin False 0) xs"

text \<open>The total in the response, and the total of the order document written last.\<close>

definition returned_total :: "(error + document) \<times> database \<Rightarrow> error + pyval option" where
  "returned_total res = (case fst res of Inl e \<Rightarrow> Inl e | Inr r \<Rightarrow> Inr (map_of r ''total''))"

definition persisted_total :: "(error + document) \<times> database \<Rightarrow> pyval option" where
  "persisted_total res =
     (case fst res of Inl e \<Rightarrow> None | Inr r \<Rightarrow> map_of (last (snd res ''order'')) ''total'')"

subsection \<open>Example data\<close>

text \<open>
  A store with one restaurant under a native identifier and two menu items under string
  identifiers, the second without a price; two requests that differ in everything but
  their lines.
\<close>

definition ex_rt :: runtime where
  "ex_rt = \<lparr>str_to_float = (\<lambda>s. None),
            new_id = (\<lambda>db. VObjectId (ObjectId [102, 41, 3, 200, 17, 5, 9, 77, 250, 1, 0, 42]))\<rparr>"

definition ex_db :: database where
  "ex_db = (\<lambda>c. [])
     (''restaurant'' :=
        [[(''_id'', VObjectId (ObjectId [80, 127, 31, 119, 188, 248, 108, 215, 153, 67, 144, 17])),
          (''name'', VStr ''Roma'')]],
      ''menuitem'' :=
        [[(''_id'', VStr ''m1''), (''title'', VStr ''Soup''),
          (''price'', VFloat (float_lit (999 / 100)))],
         [(''_id'', VStr ''m2''), (''title'', VStr ''Water'')]])"

definition ex_order :: "OrderItemIn list \<Rightarrow> OrderIn" where
  "ex_order its =
     \<lparr>customer_name = ''Ann'', address = ''1 Main St'', order_restaurant_id = ''r1'', items = its\<rparr>"

definition ex_menu_item :: "string \<Rightarrow> MenuItemIn" where
  "ex_menu_item rid =
     \<lparr>restaurant_id = rid, title = ''Soup'', description = None, price = float_lit (999 / 100),
      image_url = None, vegetarian = True\<rparr>"

definition ex_rt2 :: runtime where
  "ex_rt2 = \<lparr>str_to_float = (\<lambda>s. None), new_id = (\<lambda>db. VStr ''order-7'')\<rparr>"

definition ex_db2 :: database where
  "ex_db2 = ex_db(''order'' := [[(''_id'', VStr ''order-6''), (''status'', VStr ''placed'')]],
                  ''restaurant'' := [])"

definition ex_order2 :: "OrderItemIn list \<Rightarrow> OrderIn" where
  "ex_order2 its =
     \<lparr>customer_name = ''Bob'', address = ''9 Side Rd'', order_restaurant_id = ''r2'', items = its\<rparr>"

text \<open>
  A second menu: a price of 0.125, a price that is not a number, and an item
  whose identifier is the string of two spaces and 22 hexadecimal digits.
\<close>

definition ex_db3 :: database where
  "ex_db3 = (\<lambda>c. [])
     (''menuitem'' :=
        [[(''_id'', VStr ''m3''), (''title'', VStr ''Tea''),
          (''price'', VFloat (float_lit (1 / 8)))],
         [(''_id'', VStr ''m4''), (''title'', VStr ''Cake''), (''price'', VStr ''abc'')],
         [(''_id'', VStr ''  507f1f77bcf86cd7994390''), (''title'', VStr ''Rice''),
          (''price'', VFloat (float_lit 5))]])"

text \<open>A quantity too large for a float.\<close>

definition ex_huge :: int where
  "ex_huge = 2 ^ 1024"

section \<open>Lemmas\<close>

lemma find_one_Some:
  "find_one coll [(k, v)] = Some d \<Longrightarrow> map_of d k = Some v \<and> d \<in> set coll"
  by (auto simp: find_one_def matches_def find_Some_iff)

lemma find_one_nonempty: "find_one coll [(k, v)] = Some d \<Longrightarrow> d \<noteq> []"
  using find_one_Some by fastforce

lemma truthy_find_one: "truthy (find_one coll [(k, v)]) = find_one coll [(k, v)]"
  by (cases "find_one coll [(k, v)]") (auto simp: truthy_def dest: find_one_nonempty)

lemma to_object_id_valid:
  "ObjectId_is_valid s \<Longrightarrow> \<exists>oid. ObjectId_new s = Inr oid \<and> to_object_id s = Inr oid"
  by (auto simp: ObjectId_is_valid_def to_object_id_def split: if_splits sum.splits)

lemma lookup_id_cases:
  "(ObjectId_is_valid s \<and> (\<exists>oid. ObjectId_new s = Inr oid \<and>
       lookup_id coll s = Inr (find_one coll [(''_id'', VObjectId oid)]))) \<or>
   (\<not> ObjectId_is_valid s \<and> lookup_id coll s = Inr (find_one coll [(''_id'', VStr s)]))"
  using to_object_id_valid [of s] by (auto simp: lookup_id_def)

lemma lookup_id_Inr: "\<exists>mi. lookup_id coll s = Inr mi \<and> truthy mi = mi"
  using lookup_id_cases [of s coll] by (auto simp: truthy_find_one)

lemma order_loop_step_unresolved:
  "\<not> resolves coll item \<Longrightarrow>
   order_loop rt coll (item # rest) tot =
     Inl (HTTPException 404 (''Menu item not found: '' @ menu_item_id item))"
  using lookup_id_Inr [of coll "menu_item_id item"]
  by (auto simp: resolves_def truthy_def split: option.splits)

lemma order_loop_step_priced:
  "priced rt coll item (p, q) \<Longrightarrow>
   order_loop rt coll (item # rest) tot = order_loop rt coll rest (fadd tot (fmul p q))"
  using lookup_id_Inr [of coll "menu_item_id item"]
  by (auto simp: priced_def split: option.splits sum.splits)

lemma order_loop_append:
  "list_all2 (priced rt coll) pre pqs \<Longrightarrow>
   order_loop rt coll (pre @ rest) tot =
     order_loop rt coll rest (foldl fadd tot (line_totals pqs))"
proof (induction pre pqs arbitrary: tot rule: list_all2_induct)
  case Nil
  then show ?case by (simp add: line_totals_def)
next
  case (Cons item pre pq pqs)
  obtain p q where pq: "pq = (p, q)" by (cases pq)
  with Cons show ?case
    by (simp add: order_loop_step_priced line_totals_def del: order_loop.simps)
qed

lemma order_loop_priced:
  "list_all2 (priced rt coll) its pqs \<Longrightarrow>
   order_loop rt coll its tot = Inr (foldl fadd tot (line_totals pqs))"
  using order_loop_append [of rt coll its pqs "[]" tot] by simp


lemma place_order_Inl: "order_loop rt (db ''menuitem'') (items p) (Fin False 0) = Inl e \<Longrightarrow>
  place_order rt p db = (Inl e, db)"
  by (simp add: place_order_def)

lemma place_order_Inr: "order_loop rt (db ''menuitem'') (items p) (Fin False 0) = Inr tot \<Longrightarrow>
  place_order rt p db =
    (Inr [(''id'', new_id rt db), (''total'', VFloat (py_round tot 2)), (''status'', VStr ''placed'')],
     db(''order'' := db ''order'' @
        [[(''_id'', new_id rt db),
          (''customer_name'', VStr (customer_name p)),
          (''address'', VStr (address p)),
          (''restaurant_id'', VStr (order_restaurant_id p)),
          (''items'', VList (map (\<lambda>i. VDict [(''menu_item_id'', VStr (menu_item_id i)),
                                              (''quantity'', VInt (quantity i))]) (items p))),
          (''total'', VFloat (py_round tot 2)),
          (''status'', VStr ''placed'')]]))"
  by (simp add: place_order_def create_document_def dict_get_def Let_def comp_def
      OrderItemIn_model_dump_def)

lemma place_order_priced:
  assumes "list_all2 (priced rt (db ''menuitem'')) (items p) pqs"
  shows "order_loop rt (db ''menuitem'') (items p) (Fin False 0) = Inr (py_sum (line_totals pqs))"
  using order_loop_priced [OF assms] by (simp add: py_sum_def)

lemma hex_digit_not_space: "hex_digit c = Some n \<Longrightarrow> \<not> is_space c"
  by (auto simp: hex_digit_def is_space_def Let_def split: if_splits)

lemma fromhex_hex_bytes:
  "even (length s) \<Longrightarrow> list_all (\<lambda>c. hex_digit c \<noteq> None) s \<Longrightarrow> fromhex s = Some (hex_bytes s)"
proof (induction s rule: hex_bytes.induct)
  case 1
  show ?case by simp
next
  case (2 c)
  then show ?case by simp
next
  case (3 c d cs)
  then show ?case
    by (auto simp: hex_value_def dest: hex_digit_not_space)
qed

lemma ObjectId_is_valid_iff: "ObjectId_is_valid s = (length s = 24 \<and> fromhex s \<noteq> None)"
  by (auto simp: ObjectId_is_valid_def ObjectId_new_def split: option.splits)

lemma ObjectId_new_hex:
  "length s = 24 \<Longrightarrow> list_all (\<lambda>c. hex_digit c \<noteq> None) s \<Longrightarrow>
   ObjectId_new s = Inr (ObjectId (hex_bytes s))"
  using fromhex_hex_bytes [of s] by (simp add: ObjectId_new_def)

lemma py_float_runtime: "str_to_float rt1 = str_to_float rt2 \<Longrightarrow> py_float rt1 v = py_float rt2 v"
  by (simp add: py_float_def split: pyval.splits)

lemma order_loop_runtime:
  "str_to_float rt1 = str_to_float rt2 \<Longrightarrow> order_loop rt1 coll its tot = order_loop rt2 coll its tot"
  by (induction its arbitrary: tot) (auto simp: py_float_runtime [of rt1 rt2] split: sum.splits option.splits)

lemma py_float_not_400: "py_float rt v \<noteq> Inl (HTTPException c d)"
  by (auto simp: py_float_def int_to_float_def split: pyval.splits option.splits)

lemma int_to_float_not_400: "int_to_float i \<noteq> Inl (HTTPException c d)"
  by (auto simp: int_to_float_def split: option.splits)

lemma order_loop_not_400: "order_loop rt coll its tot \<noteq> Inl (HTTPException 400 d)"
proof (induction its arbitrary: tot)
  case Nil
  show ?case by simp
next
  case (Cons item its)
  obtain mi where mi: "lookup_id coll (menu_item_id item) = Inr mi"
    using lookup_id_Inr by blast
  show ?case
    using Cons py_float_not_400 int_to_float_not_400
    by (auto simp: mi split: option.splits sum.splits)
qed

text \<open>
  The float model against values that Python prints: \<^verbatim>\<open>0.1 + 0.2\<close> is
  \<^verbatim>\<open>0.30000000000000004\<close>, \<^verbatim>\<open>round(0.125, 2)\<close> is \<^verbatim>\<open>0.12\<close> (a tie, to even),
  \<^verbatim>\<open>round(2.675, 2)\<close> is \<^verbatim>\<open>2.67\<close> (the double is below the decimal), and
  \<^verbatim>\<open>float(2 ** 53 + 1)\<close> is \<^verbatim>\<open>9007199254740992.0\<close>.
\<close>

lemma float_model_sum: "fadd (float_lit (1 / 10)) (float_lit (2 / 10)) =
   float_lit (30000000000000004 / 100000000000000000)"
  by code_simp

lemma float_model_round_tie: "py_round (float_lit (125 / 1000)) 2 = float_lit (12 / 100)"
  by code_simp

lemma float_model_round_below: "py_round (float_lit (2675 / 1000)) 2 = float_lit (267 / 100)"
  by code_simp

lemma float_model_int: "int_to_float 9007199254740993 = Inr (Fin False 9007199254740992)"
  by code_simp

lemma round_half_even_nearest:
  "\<bar>x - of_int (round_half_even x)\<bar> \<le> 1 / 2 \<and>
   (\<bar>x - of_int (round_half_even x)\<bar> = 1 / 2 \<longrightarrow> even (round_half_even x))"
proof -
  define f where "f = \<lfloor>x\<rfloor>"
  define d where "d = x - of_int f"
  have d: "0 \<le> d" "d < 1"
    unfolding d_def f_def by linarith+
  have r: "round_half_even x =
      (if d < 1 / 2 then f else if 1 / 2 < d then f + 1 else if even f then f else f + 1)"
    by (simp add: round_half_even_def Let_def f_def d_def)
  have main: "\<bar>(of_int f + d) - of_int n\<bar> \<le> 1 / 2 \<and>
      (\<bar>(of_int f + d) - of_int n\<bar> = 1 / 2 \<longrightarrow> even n)"
    if "n = (if d < 1 / 2 then f else if 1 / 2 < d then f + 1 else if even f then f else f + 1)"
    for n
    using that d
    by (cases "d < 1 / 2"; cases "1 / 2 < d"; cases "even f") (auto simp: abs_if)
  from main [OF r] show ?thesis
    by (simp add: d_def)
qed

lemma py_round_2_nearest:
  "(case x of
      Fin s m \<Rightarrow>
        \<exists>n. \<bar>m * 100 - of_int n\<bar> \<le> 1 / 2 \<and> (\<bar>m * 100 - of_int n\<bar> = 1 / 2 \<longrightarrow> even n) \<and>
            py_round x 2 = rnd s (of_int n / 100)
    | _ \<Rightarrow> py_round x 2 = x)"
proof (cases x)
  case (Fin s m)
  have "py_round (Fin s m) 2 = rnd s (of_int (round_half_even (m * 100)) / 100)"
    by (simp add: py_round_def)
  with round_half_even_nearest [of "m * 100"] Fin show ?thesis
    by (auto intro!: exI [of _ "round_half_even (m * 100)"])
qed (simp_all add: py_round_def)



lemma order_loop_step_price_error:
  assumes "lookup_id coll (menu_item_id item) = Inr (Some d)"
      and "py_float rt (dict_get d ''price'' (VInt 0)) = Inl e"
  shows "order_loop rt coll (item # rest) tot = Inl e"
  using assms lookup_id_Inr [of coll "menu_item_id item"] by auto

lemma order_loop_step_quantity_error:
  assumes "lookup_id coll (menu_item_id item) = Inr (Some d)"
      and "py_float rt (dict_get d ''price'' (VInt 0)) = Inr p"
      and "int_to_float (quantity item) = Inl e"
  shows "order_loop rt coll (item # rest) tot = Inl e"
  using assms lookup_id_Inr [of coll "menu_item_id item"] by auto


lemma int_to_float_huge: "int_to_float ex_huge = Inl OverflowError"
  by code_simp

lemma round_binary64_0: "round_binary64 0 = Some 0"
  by (simp add: round_binary64_def)

lemma py_round_zero: "py_round (Fin s 0) n = Fin s 0"
  by (simp add: py_round_def round_half_even_def rnd_def round_binary64_0)

lemma int_to_float_sign: "int_to_float i = Inr q \<Longrightarrow> \<exists>m. q = Fin (i < 0) m"
  by (auto simp: int_to_float_def split: option.splits)

lemma fmul_zero: "fmul (Fin False 0) (Fin s m) = Fin s 0"
  by (simp add: rnd_def round_binary64_0)

lemma int_to_float_0: "int_to_float 0 = Inr (Fin False 0)"
  by (simp add: int_to_float_def round_binary64_0)

lemma int_to_float_3: "int_to_float 3 = Inr (Fin False 3)"
  by code_simp

lemma int_to_float_2: "int_to_float 2 = Inr (Fin False 2)"
  by code_simp

lemma line_2997: "fmul (float_lit (999 / 100)) (Fin False 3) = float_lit (2997 / 100)"
  by code_simp

lemma ex_valid: "ObjectId_is_valid ''507f1f77bcf86cd799439011''"
  by code_simp

lemma ex_oid: "ObjectId_new ''507f1f77bcf86cd799439011'' =
   Inr (ObjectId [80, 127, 31, 119, 188, 248, 108, 215, 153, 67, 144, 17])"
  by code_simp

lemma ex_priced_m1: "priced ex_rt (ex_db ''menuitem'') \<lparr>menu_item_id = ''m1'', quantity = 3\<rparr>
   (float_lit (999 / 100), Fin False 3)"
  by code_simp


lemma priced_no_price:
  assumes "lookup_id coll (menu_item_id item) = Inr (Some d)"
      and "map_of d ''price'' = None"
      and "int_to_float (quantity item) = Inr q"
  shows "priced rt coll item (Fin False 0, q)"
  using assms by (simp add: priced_def dict_get_def py_float_def int_to_float_0)

lemma priced_float_price:
  assumes "lookup_id coll (menu_item_id item) = Inr (Some d)"
      and "map_of d ''price'' = Some (VFloat p)"
      and "int_to_float (quantity item) = Inr q"
  shows "priced rt coll item (p, q)"
  using assms by (simp add: priced_def dict_get_def py_float_def)

lemma place_order_priced_result:
  assumes "list_all2 (priced rt (db ''menuitem'')) (items p) pqs"
  shows "fst (place_order rt p db) =
           Inr [(''id'', new_id rt db),
                (''total'', VFloat (py_round (py_sum (line_totals pqs)) 2)),
                (''status'', VStr ''placed'')] \<and>
         (\<exists>doc. snd (place_order rt p db) ''order'' = db ''order'' @ [doc] \<and>
                map_of doc ''total'' = Some (VFloat (py_round (py_sum (line_totals pqs)) 2)))"
  using place_order_Inr [of rt db p "py_sum (line_totals pqs)"]
    place_order_priced [of rt db p pqs] assms
  by simp

lemma place_order_priced_totals:
  assumes "list_all2 (priced rt (db ''menuitem'')) (items p) pqs"
  shows "returned_total (place_order rt p db) =
           Inr (Some (VFloat (py_round (py_sum (line_totals pqs)) 2)))"
    and "persisted_total (place_order rt p db) =
           Some (VFloat (py_round (py_sum (line_totals pqs)) 2))"
  using place_order_Inr [of rt db p "py_sum (line_totals pqs)"]
    place_order_priced [of rt db p pqs] assms
  by (simp_all add: returned_total_def persisted_total_def)

lemma example_sum:
  "py_round (py_sum (line_totals [(float_lit (999 / 100), Fin False 3),
                                  (float_lit (999 / 100), Fin False 3)])) 2 =
   float_lit (5994 / 100)"
  by code_simp

lemma example_sum_no_price:
  "py_round (py_sum (line_totals [(float_lit (999 / 100), Fin False 3)] @
                     [Fin (2 < (0::int)) 0] @ line_totals [])) 2 =
   float_lit (2997 / 100)"
  by code_simp

lemma ex_lookup_m1: "lookup_id (ex_db ''menuitem'') ''m1'' =
   Inr (Some [(''_id'', VStr ''m1''), (''title'', VStr ''Soup''),
              (''price'', VFloat (float_lit (999 / 100)))])"
  by (simp add: ex_db_def lookup_id_def ObjectId_is_valid_def ObjectId_new_def
      find_one_def matches_def)

lemma ex_lookup_m2: "lookup_id (ex_db ''menuitem'') ''m2'' =
   Inr (Some [(''_id'', VStr ''m2''), (''title'', VStr ''Water'')])"
  by (simp add: ex_db_def lookup_id_def ObjectId_is_valid_def ObjectId_new_def
      find_one_def matches_def)

lemma ex_lookup_restaurant: "lookup_id (ex_db ''restaurant'') ''507f1f77bcf86cd799439011'' =
   Inr (Some [(''_id'', VObjectId (ObjectId [80, 127, 31, 119, 188, 248, 108, 215, 153, 67, 144, 17])),
              (''name'', VStr ''Roma'')])"
  by (simp add: ex_db_def lookup_id_def ex_valid to_object_id_def ex_oid find_one_def matches_def)

lemma ex_oid_upper: "ObjectId_new ''507F1F77BCF86CD799439011'' =
   Inr (ObjectId [80, 127, 31, 119, 188, 248, 108, 215, 153, 67, 144, 17])"
  by code_simp

lemma ex_invalid: "\<not> ObjectId_is_valid ''not-an-id''" "\<not> ObjectId_is_valid ''m1''"
  "\<not> ObjectId_is_valid ''nope''"
  by (simp_all add: ObjectId_is_valid_def ObjectId_new_def)

lemma ex_find_none:
  "find_one (ex_db ''restaurant'') [(''_id'', VStr ''not-an-id'')] = None"
  "find_one (ex_db ''menuitem'') [(''_id'', VStr ''not-an-id'')] = None"
  by (simp_all add: ex_db_def find_one_def matches_def)

lemma ex_lookup_none: "lookup_id (ex_db ''restaurant'') ''not-an-id'' = Inr None"
  by (simp add: lookup_id_def ex_invalid ex_find_none)

lemma ex_order_result:
  "place_order ex_rt (ex_order [\<lparr>menu_item_id = ''m1'', quantity = 3\<rparr>,
                                \<lparr>menu_item_id = ''m1'', quantity = 3\<rparr>]) ex_db =
    (Inr [(''id'', new_id ex_rt ex_db), (''total'', VFloat (float_lit (5994 / 100))),
          (''status'', VStr ''placed'')],
     ex_db(''order'' := ex_db ''order'' @
        [[(''_id'', new_id ex_rt ex_db),
          (''customer_name'', VStr ''Ann''),
          (''address'', VStr ''1 Main St''),
          (''restaurant_id'', VStr ''r1''),
          (''items'', VList [VDict [(''menu_item_id'', VStr ''m1''), (''quantity'', VInt 3)],
                             VDict [(''menu_item_id'', VStr ''m1''), (''quantity'', VInt 3)]]),
          (''total'', VFloat (float_lit (5994 / 100))),
          (''status'', VStr ''placed'')]]))"
proof -
  let ?pqs = "[(float_lit (999 / 100), Fin False 3), (float_lit (999 / 100), Fin False 3)]"
  let ?p = "ex_order [\<lparr>menu_item_id = ''m1'', quantity = 3\<rparr>,
                      \<lparr>menu_item_id = ''m1'', quantity = 3\<rparr>]"
  have "list_all2 (priced ex_rt (ex_db ''menuitem'')) (items ?p) ?pqs"
    by (simp add: ex_order_def ex_priced_m1)
  then have "order_loop ex_rt (ex_db ''menuitem'') (items ?p) (Fin False 0) =
      Inr (py_sum (line_totals ?pqs))"
    by (rule place_order_priced)
  from place_order_Inr [of ex_rt ex_db ?p "py_sum (line_totals ?pqs)", OF this]
  show ?thesis
    by (simp only: example_sum) (simp add: ex_order_def)
qed

lemma ex_priced_m3: "priced ex_rt (ex_db3 ''menuitem'') \<lparr>menu_item_id = ''m3'', quantity = 1\<rparr>
   (float_lit (1 / 8), Fin False 1)"
  by code_simp

lemma example_sum_m3:
  "py_round (py_sum (line_totals [(float_lit (1 / 8), Fin False 1)])) 2 = float_lit (12 / 100)"
  by code_simp

lemma ex_lookup_m4: "lookup_id (ex_db3 ''menuitem'') ''m4'' =
   Inr (Some [(''_id'', VStr ''m4''), (''title'', VStr ''Cake''), (''price'', VStr ''abc'')])"
  by (simp add: ex_db3_def lookup_id_def ObjectId_is_valid_def ObjectId_new_def
      find_one_def matches_def)

lemma ex_price_m4:
  "py_float ex_rt (dict_get [(''_id'', VStr ''m4''), (''title'', VStr ''Cake''),
     (''price'', VStr ''abc'')] ''price'' (VInt 0)) = Inl ValueError"
  by (simp add: dict_get_def py_float_def ex_rt_def)


lemma ex_loop_m4:
  "order_loop ex_rt (ex_db3 ''menuitem'') (\<lparr>menu_item_id = ''m4'', quantity = 1\<rparr> # rest)
     (Fin False 0) = Inl ValueError"
  by (rule order_loop_step_price_error [where d = "[(''_id'', VStr ''m4''),
        (''title'', VStr ''Cake''), (''price'', VStr ''abc'')]"])
     (simp_all add: ex_lookup_m4 ex_price_m4)

lemma ex_loop_huge_m1:
  "order_loop ex_rt (ex_db ''menuitem'') [\<lparr>menu_item_id = ''m1'', quantity = ex_huge\<rparr>]
     (Fin False 0) = Inl OverflowError"
  by (rule order_loop_step_quantity_error [where p = "float_lit (999 / 100)"
        and d = "[(''_id'', VStr ''m1''), (''title'', VStr ''Soup''),
                  (''price'', VFloat (float_lit (999 / 100)))]"])
     (simp_all add: ex_lookup_m1 dict_get_def py_float_def int_to_float_huge)

lemma ex_loop_huge_m2:
  "order_loop ex_rt (ex_db ''menuitem'') [\<lparr>menu_item_id = ''m2'', quantity = ex_huge\<rparr>]
     (Fin False 0) = Inl OverflowError"
  by (rule order_loop_step_quantity_error [where p = "Fin False 0"
        and d = "[(''_id'', VStr ''m2''), (''title'', VStr ''Water'')]"])
     (simp_all add: ex_lookup_m2 dict_get_def py_float_def int_to_float_0 int_to_float_huge)

lemma ex_padded_valid: "ObjectId_is_valid ''  507f1f77bcf86cd7994390''"
  by code_simp

lemma ex_padded_oid: "ObjectId_new ''  507f1f77bcf86cd7994390'' =
   Inr (ObjectId [80, 127, 31, 119, 188, 248, 108, 215, 153, 67, 144])"
  by code_simp

lemma ex_padded_not_hex:
  "\<not> list_all (\<lambda>c. hex_digit c \<noteq> None) ''  507f1f77bcf86cd7994390''"
  by (simp add: hex_digit_def)

lemma ex_padded_lookup: "lookup_id (ex_db3 ''menuitem'') ''  507f1f77bcf86cd7994390'' = Inr None"
  by (simp add: lookup_id_def ex_padded_valid to_object_id_def ex_padded_oid ex_db3_def
      find_one_def matches_def)

lemma ex_padded_find:
  "find_one (ex_db3 ''menuitem'') [(''_id'', VStr ''  507f1f77bcf86cd7994390'')] =
     Some [(''_id'', VStr ''  507f1f77bcf86cd7994390''), (''title'', VStr ''Rice''),
           (''price'', VFloat (float_lit 5))]"
  by (simp add: ex_db3_def find_one_def matches_def)

lemma ex_hex_bytes: "hex_bytes ''507f1f77bcf86cd799439011'' =
   [80, 127, 31, 119, 188, 248, 108, 215, 153, 67, 144, 17]"
  by code_simp

lemma ex_all_hex: "list_all (\<lambda>c. hex_digit c \<noteq> None) ''507f1f77bcf86cd799439011''"
  by (simp add: hex_digit_def)

lemma ex_other_oid_lookup:
  "lookup_id (ex_db ''restaurant'') ''507f1f77bcf86cd799439012'' = Inr None"
  by code_simp

text \<open>
  A quantity below 1 passes as well (\<open>OrderItemIn\<close> declares \<^verbatim>\<open>quantity: int = 1\<close>, without
  the \<^verbatim>\<open>ge=1\<close> that \<open>OrderItem\<close> in schemas.py has): three soups taken back give a
  negative total.
\<close>

lemma ex_priced_negative: "priced ex_rt (ex_db ''menuitem'') \<lparr>menu_item_id = ''m1'', quantity = - 3\<rparr>
   (float_lit (999 / 100), Fin True 3)"
  by code_simp

lemma example_sum_negative:
  "py_round (py_sum (line_totals [(float_lit (999 / 100), Fin True 3)])) 2 =
   float_lit (- (2997 / 100))"
  by code_simp

lemma ex_negative_quantity:
  "returned_total (place_order ex_rt (ex_order [\<lparr>menu_item_id = ''m1'', quantity = - 3\<rparr>]) ex_db) =
     Inr (Some (VFloat (float_lit (- (2997 / 100)))))"
proof -
  have "list_all2 (priced ex_rt (ex_db ''menuitem''))
      (items (ex_order [\<lparr>menu_item_id = ''m1'', quantity = - 3\<rparr>]))
      [(float_lit (999 / 100), Fin True 3)]"
    by (simp add: ex_order_def ex_priced_negative)
  from place_order_priced_totals(1) [where rt = ex_rt and db = ex_db
      and p = "ex_order [\<lparr>menu_item_id = ''m1'', quantity = - 3\<rparr>]"
      and pqs = "[(float_lit (999 / 100), Fin True 3)]"] this
  show ?thesis by (simp only: example_sum_negative)
qed

section \<open>The claims\<close>

subsection \<open>Order total\<close>

text \<open>
  C1, as the code has it. When every line of the request resolves to a stored menu item
  whose price \<^verbatim>\<open>float\<close> can read (0 where the document has none) and whose quantity
  converts to a float, \<^verbatim>\<open>place_order\<close> succeeds. The total is the float sum, taken from
  \<open>0.0\<close> in the order of the lines, of stored price times quantity, rounded to 2
  decimals: for a finite sum of magnitude \<open>m\<close> it is the double nearest to \<open>n / 100\<close>,
  where \<open>n\<close> is the integer nearest to \<open>100 * m\<close>, the even one on a tie, with the sign of
  the sum; an infinite or undefined sum stays as it is. The response returns this total
  and the one order document appended to the order collection carries the same value.
\<close>

theorem place_order_total:
  assumes "list_all2 (priced rt (db ''menuitem'')) (items payload) pqs"
  shows "fst (place_order rt payload db) =
           Inr [(''id'', new_id rt db),
                (''total'', VFloat (py_round (py_sum (line_totals pqs)) 2)),
                (''status'', VStr ''placed'')] \<and>
         (\<exists>doc. snd (place_order rt payload db) ''order'' = db ''order'' @ [doc] \<and>
                map_of doc ''total'' = Some (VFloat (py_round (py_sum (line_totals pqs)) 2))) \<and>
         (case py_sum (line_totals pqs) of
            Fin s m \<Rightarrow>
              \<exists>n. \<bar>m * 100 - of_int n\<bar> \<le> 1 / 2 \<and> (\<bar>m * 100 - of_int n\<bar> = 1 / 2 \<longrightarrow> even n) \<and>
                  py_round (py_sum (line_totals pqs)) 2 = rnd s (of_int n / 100)
          | _ \<Rightarrow> py_round (py_sum (line_totals pqs)) 2 = py_sum (line_totals pqs))"
proof -
  have "fst (place_order rt payload db) =
           Inr [(''id'', new_id rt db),
                (''total'', VFloat (py_round (py_sum (line_totals pqs)) 2)),
                (''status'', VStr ''placed'')] \<and>
         (\<exists>doc. snd (place_order rt payload db) ''order'' = db ''order'' @ [doc] \<and>
                map_of doc ''total'' = Some (VFloat (py_round (py_sum (line_totals pqs)) 2)))"
    using place_order_priced_result [of rt db payload pqs] assms by simp
  with py_round_2_nearest [of "py_sum (line_totals pqs)"] show ?thesis
    by blast
qed

text \<open>
  On the second menu: one tea at 0.125, a tie between 0.12 and 0.13, costs 0.12.
\<close>

theorem place_order_total_witness:
  "list_all2 (priced ex_rt (ex_db3 ''menuitem''))
     (items (ex_order [\<lparr>menu_item_id = ''m3'', quantity = 1\<rparr>]))
     [(float_lit (1 / 8), Fin False 1)] \<and>
   fst (place_order ex_rt (ex_order [\<lparr>menu_item_id = ''m3'', quantity = 1\<rparr>]) ex_db3) =
     Inr [(''id'', new_id ex_rt ex_db3),
          (''total'', VFloat (float_lit (12 / 100))),
          (''status'', VStr ''placed'')]"
proof -
  have h: "list_all2 (priced ex_rt (ex_db3 ''menuitem''))
     (items (ex_order [\<lparr>menu_item_id = ''m3'', quantity = 1\<rparr>]))
     [(float_lit (1 / 8), Fin False 1)]"
    by (simp add: ex_order_def ex_priced_m3)
  show ?thesis
    using h place_order_total [of ex_rt ex_db3 _ "[(float_lit (1 / 8), Fin False 1)]",
      OF h, THEN conjunct1]
    by (simp only: example_sum_m3 simp_thms)
qed

text \<open>
  Every line resolves and yet no total is computed: a quantity of \<open>2 ^ 1024\<close> does not
  convert to a float, and a stored price \<^verbatim>\<open>'abc'\<close> is not a number.
\<close>

theorem place_order_total_counterexample:
  "resolves (ex_db ''menuitem'') \<lparr>menu_item_id = ''m1'', quantity = ex_huge\<rparr> \<and>
   place_order ex_rt (ex_order [\<lparr>menu_item_id = ''m1'', quantity = ex_huge\<rparr>]) ex_db =
     (Inl OverflowError, ex_db) \<and>
   resolves (ex_db3 ''menuitem'') \<lparr>menu_item_id = ''m4'', quantity = 1\<rparr> \<and>
   place_order ex_rt (ex_order [\<lparr>menu_item_id = ''m4'', quantity = 1\<rparr>]) ex_db3 =
     (Inl ValueError, ex_db3)"
proof -
  have "place_order ex_rt (ex_order [\<lparr>menu_item_id = ''m1'', quantity = ex_huge\<rparr>]) ex_db =
     (Inl OverflowError, ex_db)"
    by (rule place_order_Inl) (simp add: ex_order_def ex_loop_huge_m1 del: order_loop.simps)
  moreover have "place_order ex_rt (ex_order [\<lparr>menu_item_id = ''m4'', quantity = 1\<rparr>]) ex_db3 =
     (Inl ValueError, ex_db3)"
    by (rule place_order_Inl) (simp add: ex_order_def ex_loop_m4 del: order_loop.simps)
  ultimately show ?thesis
    by (simp add: resolves_def ex_lookup_m1 ex_lookup_m4)
qed

text \<open>
  C9. A stored price of 9.99 and a quantity of 3: the quantity converts to \<open>3.0\<close>, the
  line contributes the double \<open>29.97\<close>, and an order of two such lines has the total
  \<open>59.94\<close>, returned and persisted. The decimals stand for the doubles nearest to them.
\<close>

theorem example_9_99_times_3:
  assumes "lookup_id (db ''menuitem'') mid = Inr (Some d)"
      and "map_of d ''price'' = Some (VFloat (float_lit (999 / 100)))"
      and "items payload = [\<lparr>menu_item_id = mid, quantity = 3\<rparr>,
                            \<lparr>menu_item_id = mid, quantity = 3\<rparr>]"
  shows "int_to_float 3 = Inr (Fin False 3) \<and>
         fmul (float_lit (999 / 100)) (Fin False 3) = float_lit (2997 / 100) \<and>
         returned_total (place_order rt payload db) =
           Inr (Some (VFloat (float_lit (5994 / 100)))) \<and>
         persisted_total (place_order rt payload db) =
           Some (VFloat (float_lit (5994 / 100)))"
proof -
  let ?line = "\<lparr>menu_item_id = mid, quantity = 3\<rparr>"
  let ?pq = "(float_lit (999 / 100), Fin False 3)"
  have "priced rt (db ''menuitem'') ?line ?pq"
    using assms(1,2) by (intro priced_float_price [of _ _ d]) (simp_all add: int_to_float_3)
  then have all: "list_all2 (priced rt (db ''menuitem'')) (items payload) [?pq, ?pq]"
    using assms(3) by simp
  show ?thesis
    using place_order_priced_totals [of rt db payload "[?pq, ?pq]"] all
    by (simp only: example_sum int_to_float_3 line_2997 simp_thms)
qed

text \<open>
  On the example store, with the double \<open>59.94\<close> written out.
\<close>

theorem example_9_99_times_3_witness:
  "lookup_id (ex_db ''menuitem'') ''m1'' =
     Inr (Some [(''_id'', VStr ''m1''), (''title'', VStr ''Soup''),
                (''price'', VFloat (float_lit (999 / 100)))]) \<and>
   returned_total (place_order ex_rt (ex_order [\<lparr>menu_item_id = ''m1'', quantity = 3\<rparr>,
                                                \<lparr>menu_item_id = ''m1'', quantity = 3\<rparr>]) ex_db) =
     Inr (Some (VFloat (float_lit (5994 / 100)))) \<and>
   float_lit (5994 / 100) = Fin False (1054475631502295 / 17592186044416)"
proof -
  have a: "map_of [(''_id'', VStr ''m1''), (''title'', VStr ''Soup''),
                (''price'', VFloat (float_lit (999 / 100)))] ''price'' =
      Some (VFloat (float_lit (999 / 100)))"
    by simp
  have b: "items (ex_order [\<lparr>menu_item_id = ''m1'', quantity = 3\<rparr>,
                            \<lparr>menu_item_id = ''m1'', quantity = 3\<rparr>]) =
      [\<lparr>menu_item_id = ''m1'', quantity = 3\<rparr>, \<lparr>menu_item_id = ''m1'', quantity = 3\<rparr>]"
    by (simp add: ex_order_def)
  have c: "float_lit (5994 / 100) = Fin False (1054475631502295 / 17592186044416)"
    by code_simp
  from example_9_99_times_3 [where db = ex_db and mid = "''m1''" and rt = ex_rt
      and d = "[(''_id'', VStr ''m1''), (''title'', VStr ''Soup''),
                (''price'', VFloat (float_lit (999 / 100)))]"
      and payload = "ex_order [\<lparr>menu_item_id = ''m1'', quantity = 3\<rparr>,
                               \<lparr>menu_item_id = ''m1'', quantity = 3\<rparr>]"]
    ex_lookup_m1 a b c
  show ?thesis by (simp only: simp_thms)
qed

text \<open>
  C10, as the code has it. A line whose menu item document exists but has no \<^verbatim>\<open>price\<close>
  key does not make the order fail as long as its quantity converts to a float:
  \<^verbatim>\<open>mi.get("price", 0)\<close> gives 0, the line contributes \<open>0.0 * quantity\<close>, a zero with the
  sign of the quantity, and with the other lines priced the order is persisted with the
  total of all lines.
\<close>

theorem missing_price_counts_as_zero:
  assumes "items payload = pre @ item # post"
      and "list_all2 (priced rt (db ''menuitem'')) pre pqs"
      and "list_all2 (priced rt (db ''menuitem'')) post pqs'"
      and "lookup_id (db ''menuitem'') (menu_item_id item) = Inr (Some d)"
      and "map_of d ''price'' = None"
      and "int_to_float (quantity item) = Inr q"
  shows "fmul (Fin False 0) q = Fin (quantity item < 0) 0 \<and>
         fst (place_order rt payload db) =
           Inr [(''id'', new_id rt db),
                (''total'', VFloat (py_round (py_sum
                   (line_totals pqs @ [Fin (quantity item < 0) 0] @ line_totals pqs')) 2)),
                (''status'', VStr ''placed'')] \<and>
         (\<exists>doc. snd (place_order rt payload db) ''order'' = db ''order'' @ [doc] \<and>
                map_of doc ''total'' = Some (VFloat (py_round (py_sum
                   (line_totals pqs @ [Fin (quantity item < 0) 0] @ line_totals pqs')) 2)))"
proof -
  obtain m where q: "q = Fin (quantity item < 0) m"
    using int_to_float_sign [OF assms(6)] by blast
  then have zero: "fmul (Fin False 0) q = Fin (quantity item < 0) 0"
    by (simp only: fmul_zero)
  have "priced rt (db ''menuitem'') item (Fin False 0, q)"
    using assms(4-6) by (rule priced_no_price)
  then have all: "list_all2 (priced rt (db ''menuitem'')) (items payload)
      (pqs @ (Fin False 0, q) # pqs')"
    using assms(1-3) by (simp add: list_all2_appendI)
  have "line_totals (pqs @ (Fin False 0, q) # pqs') =
      line_totals pqs @ [Fin (quantity item < 0) 0] @ line_totals pqs'"
    using zero by (simp add: line_totals_def)
  then show ?thesis
    using place_order_priced_result [of rt db payload "pqs @ (Fin False 0, q) # pqs'"] all zero
    by simp
qed

text \<open>
  On the example store: three soups and two waters, the water without a price, cost 29.97.
\<close>

theorem missing_price_counts_as_zero_witness:
  "map_of [(''_id'', VStr ''m2''), (''title'', VStr ''Water'')] ''price'' = None \<and>
   fst (place_order ex_rt (ex_order [\<lparr>menu_item_id = ''m1'', quantity = 3\<rparr>,
                                     \<lparr>menu_item_id = ''m2'', quantity = 2\<rparr>]) ex_db) =
     Inr [(''id'', new_id ex_rt ex_db), (''total'', VFloat (float_lit (2997 / 100))),
          (''status'', VStr ''placed'')]"
proof -
  have a: "items (ex_order [\<lparr>menu_item_id = ''m1'', quantity = 3\<rparr>,
                            \<lparr>menu_item_id = ''m2'', quantity = 2\<rparr>]) =
      [\<lparr>menu_item_id = ''m1'', quantity = 3\<rparr>] @ \<lparr>menu_item_id = ''m2'', quantity = 2\<rparr> # []"
    by (simp add: ex_order_def)
  have b: "list_all2 (priced ex_rt (ex_db ''menuitem''))
      [\<lparr>menu_item_id = ''m1'', quantity = 3\<rparr>] [(float_lit (999 / 100), Fin False 3)]"
    by (simp add: ex_priced_m1)
  have c: "list_all2 (priced ex_rt (ex_db ''menuitem'')) [] []"
    by simp
  have d: "lookup_id (ex_db ''menuitem'') (menu_item_id \<lparr>menu_item_id = ''m2'', quantity = 2\<rparr>) =
      Inr (Some [(''_id'', VStr ''m2''), (''title'', VStr ''Water'')])"
    by (simp add: ex_lookup_m2)
  have e: "map_of [(''_id'', VStr ''m2''), (''title'', VStr ''Water'')] ''price'' = None"
    by simp
  have f: "int_to_float (quantity \<lparr>menu_item_id = ''m2'', quantity = 2\<rparr>) = Inr (Fin False 2)"
    by (simp add: int_to_float_2)
  have g: "quantity \<lparr>menu_item_id = ''m2'', quantity = 2\<rparr> = 2"
    by simp
  from missing_price_counts_as_zero [where rt = ex_rt and db = ex_db
      and payload = "ex_order [\<lparr>menu_item_id = ''m1'', quantity = 3\<rparr>,
                               \<lparr>menu_item_id = ''m2'', quantity = 2\<rparr>]"
      and pre = "[\<lparr>menu_item_id = ''m1'', quantity = 3\<rparr>]"
      and item = "\<lparr>menu_item_id = ''m2'', quantity = 2\<rparr>" and post = "[]"
      and pqs = "[(float_lit (999 / 100), Fin False 3)]" and pqs' = "[]"
      and d = "[(''_id'', VStr ''m2''), (''title'', VStr ''Water'')]" and q = "Fin False 2"]
    a b c d e f
  show ?thesis
    by (simp only: g example_sum_no_price simp_thms)
qed

text \<open>
  The water has no price; ordered \<open>2 ^ 1024\<close> times, \<open>0.0 * quantity\<close> raises
  \<^verbatim>\<open>OverflowError\<close> and nothing is written.
\<close>

theorem missing_price_counts_as_zero_counterexample:
  "lookup_id (ex_db ''menuitem'') ''m2'' =
     Inr (Some [(''_id'', VStr ''m2''), (''title'', VStr ''Water'')]) \<and>
   map_of [(''_id'', VStr ''m2''), (''title'', VStr ''Water'')] ''price'' = None \<and>
   place_order ex_rt (ex_order [\<lparr>menu_item_id = ''m2'', quantity = ex_huge\<rparr>]) ex_db =
     (Inl OverflowError, ex_db)"
proof -
  have "place_order ex_rt (ex_order [\<lparr>menu_item_id = ''m2'', quantity = ex_huge\<rparr>]) ex_db =
     (Inl OverflowError, ex_db)"
    by (rule place_order_Inl) (simp add: ex_order_def ex_loop_huge_m2 del: order_loop.simps)
  then show ?thesis
    by (simp add: ex_lookup_m2)
qed

text \<open>
  C8. The total depends on the lines of the request and on the menu item collection only.
  \<open>OrderIn\<close> and \<open>OrderItemIn\<close> have no price and no total field; two requests with the
  same lines, whatever their customer name, address and restaurant identifier, against
  stores with the same menu items, whatever their other collections and whatever identifier
  is generated, end in the same error or in the same returned total, and the persisted
  total is the returned one.
\<close>

theorem total_depends_on_lines_only:
  assumes "items p1 = items p2" and "db1 ''menuitem'' = db2 ''menuitem''"
      and "str_to_float rt1 = str_to_float rt2"
  shows "returned_total (place_order rt1 p1 db1) = returned_total (place_order rt2 p2 db2) \<and>
         persisted_total (place_order rt1 p1 db1) = persisted_total (place_order rt2 p2 db2) \<and>
         (\<forall>t. returned_total (place_order rt1 p1 db1) = Inr t \<longrightarrow>
              persisted_total (place_order rt1 p1 db1) = t)"
proof (cases "order_loop rt1 (db1 ''menuitem'') (items p1) (Fin False 0)")
  case (Inl e)
  then have "order_loop rt2 (db2 ''menuitem'') (items p2) (Fin False 0) = Inl e"
    using assms order_loop_runtime [of rt1 rt2] by simp
  with Inl show ?thesis
    by (simp add: place_order_Inl returned_total_def persisted_total_def)
next
  case (Inr tot)
  then have "order_loop rt2 (db2 ''menuitem'') (items p2) (Fin False 0) = Inr tot"
    using assms order_loop_runtime [of rt1 rt2] by simp
  with Inr show ?thesis
    by (simp add: place_order_Inr returned_total_def persisted_total_def)
qed

text \<open>
  Two different requests with the same line, against two stores that differ in their
  restaurants and orders.
\<close>

theorem total_depends_on_lines_only_witness:
  "items (ex_order [\<lparr>menu_item_id = ''m1'', quantity = 3\<rparr>]) =
     items (ex_order2 [\<lparr>menu_item_id = ''m1'', quantity = 3\<rparr>]) \<and>
   ex_db ''menuitem'' = ex_db2 ''menuitem'' \<and>
   ex_order [\<lparr>menu_item_id = ''m1'', quantity = 3\<rparr>] \<noteq>
     ex_order2 [\<lparr>menu_item_id = ''m1'', quantity = 3\<rparr>] \<and>
   returned_total (place_order ex_rt (ex_order [\<lparr>menu_item_id = ''m1'', quantity = 3\<rparr>]) ex_db) =
     returned_total (place_order ex_rt2 (ex_order2 [\<lparr>menu_item_id = ''m1'', quantity = 3\<rparr>]) ex_db2) \<and>
   persisted_total (place_order ex_rt (ex_order [\<lparr>menu_item_id = ''m1'', quantity = 3\<rparr>]) ex_db) =
     persisted_total (place_order ex_rt2 (ex_order2 [\<lparr>menu_item_id = ''m1'', quantity = 3\<rparr>]) ex_db2)"
proof -
  have a: "items (ex_order [\<lparr>menu_item_id = ''m1'', quantity = 3\<rparr>]) =
     items (ex_order2 [\<lparr>menu_item_id = ''m1'', quantity = 3\<rparr>])"
    by (simp add: ex_order_def ex_order2_def)
  have b: "ex_db ''menuitem'' = ex_db2 ''menuitem''"
    by (simp add: ex_db2_def)
  have c: "str_to_float ex_rt = str_to_float ex_rt2"
    by (simp add: ex_rt_def ex_rt2_def)
  have d: "ex_order [\<lparr>menu_item_id = ''m1'', quantity = 3\<rparr>] \<noteq>
     ex_order2 [\<lparr>menu_item_id = ''m1'', quantity = 3\<rparr>]"
    by (simp add: ex_order_def ex_order2_def)
  from total_depends_on_lines_only [where ?p1.0 = "ex_order [\<lparr>menu_item_id = ''m1'', quantity = 3\<rparr>]"
      and ?p2.0 = "ex_order2 [\<lparr>menu_item_id = ''m1'', quantity = 3\<rparr>]"
      and ?db1.0 = ex_db and ?db2.0 = ex_db2 and ?rt1.0 = ex_rt and ?rt2.0 = ex_rt2] a b c d
  show ?thesis by simp
qed

subsection \<open>Unresolved references\<close>




text \<open>
  C6. \<^verbatim>\<open>create_menu_item\<close>: when the lookup of \<^verbatim>\<open>restaurant_id\<close> finds nothing the
  result is the 404 \<^verbatim>\<open>Restaurant not found\<close> and the store is unchanged; when it finds a
  restaurant, exactly one document is appended to the menu item collection: the six
  fields of the request, restaurant identifier, title, description, price, image and
  vegetarian flag, under the generated identifier; that identifier is returned and
  nothing else changes. The lookup always ends in one of the two cases.
\<close>

theorem create_menu_item_restaurant:
  "(lookup_id (db ''restaurant'') (restaurant_id payload) = Inr None \<longrightarrow>
      create_menu_item rt payload db = (Inl (HTTPException 404 ''Restaurant not found''), db)) \<and>
   (\<forall>r. lookup_id (db ''restaurant'') (restaurant_id payload) = Inr (Some r) \<longrightarrow>
      create_menu_item rt payload db =
        (Inr [(''id'', new_id rt db)],
         db(''menuitem'' := db ''menuitem'' @
              [[(''_id'', new_id rt db),
                (''restaurant_id'', VStr (restaurant_id payload)),
                (''title'', VStr (title payload)),
                (''description'',
                   (case description payload of None \<Rightarrow> VNone | Some t \<Rightarrow> VStr t)),
                (''price'', VFloat (price payload)),
                (''image_url'',
                   (case image_url payload of None \<Rightarrow> VNone | Some t \<Rightarrow> VStr t)),
                (''vegetarian'', VBool (vegetarian payload))]]))) \<and>
   (lookup_id (db ''restaurant'') (restaurant_id payload) = Inr None \<or>
    (\<exists>r. lookup_id (db ''restaurant'') (restaurant_id payload) = Inr (Some r)))"
proof -
  obtain mi where mi: "lookup_id (db ''restaurant'') (restaurant_id payload) = Inr mi"
      and t: "truthy mi = mi"
    using lookup_id_Inr by blast
  show ?thesis
    using t
    by (cases mi)
       (auto simp: mi create_menu_item_def create_document_def Let_def
          MenuItemIn_model_dump_def opt_str_def)
qed

text \<open>
  On the example store: an unknown restaurant, and the stored one under its hexadecimal
  identifier.
\<close>

theorem create_menu_item_restaurant_witness:
  "lookup_id (ex_db ''restaurant'') (restaurant_id (ex_menu_item ''not-an-id'')) = Inr None \<and>
   create_menu_item ex_rt (ex_menu_item ''not-an-id'') ex_db =
     (Inl (HTTPException 404 ''Restaurant not found''), ex_db) \<and>
   create_menu_item ex_rt (ex_menu_item ''507f1f77bcf86cd799439011'') ex_db =
     (Inr [(''id'', new_id ex_rt ex_db)],
      ex_db(''menuitem'' := ex_db ''menuitem'' @
        [[(''_id'', new_id ex_rt ex_db),
          (''restaurant_id'', VStr ''507f1f77bcf86cd799439011''),
          (''title'', VStr ''Soup''),
          (''description'', VNone),
          (''price'', VFloat (float_lit (999 / 100))),
          (''image_url'', VNone),
          (''vegetarian'', VBool True)]]))"
proof -
  have a: "lookup_id (ex_db ''restaurant'') (restaurant_id (ex_menu_item ''not-an-id'')) = Inr None"
    by (simp add: ex_menu_item_def ex_lookup_none)
  have b: "lookup_id (ex_db ''restaurant'')
      (restaurant_id (ex_menu_item ''507f1f77bcf86cd799439011'')) =
    Inr (Some [(''_id'', VObjectId (ObjectId [80, 127, 31, 119, 188, 248, 108, 215, 153, 67, 144, 17])),
              (''name'', VStr ''Roma'')])"
    by (simp add: ex_menu_item_def ex_lookup_restaurant)
  have c: "restaurant_id (ex_menu_item rid) = rid" "title (ex_menu_item rid) = ''Soup''"
    "description (ex_menu_item rid) = None" "price (ex_menu_item rid) = float_lit (999 / 100)"
    "image_url (ex_menu_item rid) = None" "vegetarian (ex_menu_item rid) = True" for rid
    by (simp_all add: ex_menu_item_def)
  from create_menu_item_restaurant [of ex_db "ex_menu_item ''not-an-id''" ex_rt]
    create_menu_item_restaurant [of ex_db "ex_menu_item ''507f1f77bcf86cd799439011''" ex_rt] a b
  show ?thesis by (simp add: c)
qed

subsection \<open>Identifiers\<close>

text \<open>
  C5, as the code has it. The key of the lookup is the \<^verbatim>\<open>ObjectId\<close> built from the string
  exactly when \<^verbatim>\<open>ObjectId.is_valid\<close> accepts it, and the string itself otherwise; the
  document found is the first of the collection whose \<^verbatim>\<open>_id\<close> is that key. The accepted
  strings are the 24-character strings that \<^verbatim>\<open>bytes.fromhex\<close> can read: every string of 24
  hexadecimal digits, whose key is the \<^verbatim>\<open>ObjectId\<close> of the 12 bytes it denotes, and also
  the 24-character strings in which ASCII whitespace stands before whole pairs of digits.
  Two spellings of the same \<^verbatim>\<open>ObjectId\<close> find the same document.
\<close>

theorem lookup_id_key:
  "(ObjectId_is_valid s \<longrightarrow>
      (\<exists>oid. ObjectId_new s = Inr oid \<and>
             lookup_id coll s = Inr (find_one coll [(''_id'', VObjectId oid)]))) \<and>
   (\<not> ObjectId_is_valid s \<longrightarrow> lookup_id coll s = Inr (find_one coll [(''_id'', VStr s)])) \<and>
   find_one coll [(''_id'', k)] = find (\<lambda>d. map_of d ''_id'' = Some k) coll \<and>
   (ObjectId_is_valid s \<longleftrightarrow> length s = 24 \<and> fromhex s \<noteq> None) \<and>
   (length s = 24 \<and> list_all (\<lambda>c. hex_digit c \<noteq> None) s \<longrightarrow>
      lookup_id coll s = Inr (find_one coll [(''_id'', VObjectId (ObjectId (hex_bytes s)))])) \<and>
   (ObjectId_is_valid s \<and> ObjectId_new s' = ObjectId_new s \<longrightarrow>
      lookup_id coll s' = lookup_id coll s)"
proof (intro conjI impI)
  assume "ObjectId_is_valid s"
  then show "\<exists>oid. ObjectId_new s = Inr oid \<and>
             lookup_id coll s = Inr (find_one coll [(''_id'', VObjectId oid)])"
    using lookup_id_cases [of s coll] by blast
next
  assume "\<not> ObjectId_is_valid s"
  then show "lookup_id coll s = Inr (find_one coll [(''_id'', VStr s)])"
    by (simp add: lookup_id_def)
next
  have "matches [(''_id'', k)] = (\<lambda>d. map_of d ''_id'' = Some k)"
    by (rule ext) (simp add: matches_def)
  then show "find_one coll [(''_id'', k)] = find (\<lambda>d. map_of d ''_id'' = Some k) coll"
    by (simp add: find_one_def)
next
  show "ObjectId_is_valid s \<longleftrightarrow> length s = 24 \<and> fromhex s \<noteq> None"
    by (rule ObjectId_is_valid_iff)
next
  assume h: "length s = 24 \<and> list_all (\<lambda>c. hex_digit c \<noteq> None) s"
  then have new: "ObjectId_new s = Inr (ObjectId (hex_bytes s))"
    by (simp add: ObjectId_new_hex)
  then have "ObjectId_is_valid s"
    using h by (auto simp: ObjectId_is_valid_def)
  with new show "lookup_id coll s =
      Inr (find_one coll [(''_id'', VObjectId (ObjectId (hex_bytes s)))])"
    by (simp add: lookup_id_def to_object_id_def)
next
  assume h: "ObjectId_is_valid s \<and> ObjectId_new s' = ObjectId_new s"
  then obtain oid where "ObjectId_new s = Inr oid" using to_object_id_valid by blast
  with h have "ObjectId_is_valid s'" "to_object_id s' = to_object_id s"
    by (auto simp: ObjectId_is_valid_def to_object_id_def ObjectId_new_def split: if_splits)
  with h show "lookup_id coll s' = lookup_id coll s"
    by (simp add: lookup_id_def)
qed

text \<open>
  On the example store: the restaurant is found under both letter cases of its 24 digits,
  which denote the 12 bytes of its identifier, and not under another identifier; a menu
  item is found under its string identifier.
\<close>

theorem lookup_id_key_witness:
  "ObjectId_is_valid ''507f1f77bcf86cd799439011'' \<and>
   lookup_id (ex_db ''restaurant'') ''507f1f77bcf86cd799439011'' =
     Inr (find_one (ex_db ''restaurant'')
       [(''_id'', VObjectId (ObjectId [80, 127, 31, 119, 188, 248, 108, 215, 153, 67, 144, 17]))]) \<and>
   lookup_id (ex_db ''restaurant'') ''507f1f77bcf86cd799439011'' =
     Inr (Some [(''_id'', VObjectId (ObjectId [80, 127, 31, 119, 188, 248, 108, 215, 153, 67, 144, 17])),
                (''name'', VStr ''Roma'')]) \<and>
   lookup_id (ex_db ''restaurant'') ''507F1F77BCF86CD799439011'' =
     lookup_id (ex_db ''restaurant'') ''507f1f77bcf86cd799439011'' \<and>
   lookup_id (ex_db ''restaurant'') ''507f1f77bcf86cd799439012'' = Inr None \<and>
   \<not> ObjectId_is_valid ''m1'' \<and>
   lookup_id (ex_db ''menuitem'') ''m1'' =
     Inr (find_one (ex_db ''menuitem'') [(''_id'', VStr ''m1'')])"
proof -
  have len: "length ''507f1f77bcf86cd799439011'' = 24"
    by simp
  from lookup_id_key [of "''507f1f77bcf86cd799439011''" "ex_db ''restaurant''" _
      "''507F1F77BCF86CD799439011''"]
    lookup_id_key [of "''m1''" "ex_db ''menuitem''" _ "''m1''"]
    len ex_all_hex
  show ?thesis
    by (simp add: ex_valid ex_invalid ex_oid ex_oid_upper ex_hex_bytes ex_lookup_restaurant
        ex_other_oid_lookup)
qed

text \<open>
  On the second menu: the identifier of the rice has 24 characters, two spaces and 22
  digits, so it is not a string of 24 hexadecimal digits; the lookup takes the \<^verbatim>\<open>ObjectId\<close>
  of its 11 bytes as key, not the string, and does not find the document stored under
  that string.
\<close>

theorem lookup_id_key_counterexample:
  "length ''  507f1f77bcf86cd7994390'' = 24 \<and>
   \<not> list_all (\<lambda>c. hex_digit c \<noteq> None) ''  507f1f77bcf86cd7994390'' \<and>
   ObjectId_new ''  507f1f77bcf86cd7994390'' =
     Inr (ObjectId [80, 127, 31, 119, 188, 248, 108, 215, 153, 67, 144]) \<and>
   find_one (ex_db3 ''menuitem'') [(''_id'', VStr ''  507f1f77bcf86cd7994390'')] =
     Some [(''_id'', VStr ''  507f1f77bcf86cd7994390''), (''title'', VStr ''Rice''),
           (''price'', VFloat (float_lit 5))] \<and>
   lookup_id (ex_db3 ''menuitem'') ''  507f1f77bcf86cd7994390'' = Inr None"
  using ex_padded_not_hex ex_padded_oid ex_padded_find ex_padded_lookup
  by simp

text \<open>
  C4, as the code has it. Neither endpoint ever answers 400: \<^verbatim>\<open>to_object_id\<close> is only
  applied to strings that \<^verbatim>\<open>ObjectId.is_valid\<close> accepts, where it succeeds. A malformed
  identifier is looked up as a string key, and when no document has that key the answer
  is the same 404 as for a well-formed identifier that does not resolve.
\<close>

theorem malformed_identifier_not_found:
  "fst (place_order rt payload db) \<noteq> Inl (HTTPException 400 detail) \<and>
   fst (create_menu_item rt mp db) \<noteq> Inl (HTTPException 400 detail) \<and>
   (\<not> ObjectId_is_valid (restaurant_id mp) \<and>
    find_one (db ''restaurant'') [(''_id'', VStr (restaurant_id mp))] = None \<longrightarrow>
      create_menu_item rt mp db = (Inl (HTTPException 404 ''Restaurant not found''), db)) \<and>
   (items payload = item # rest \<and> \<not> ObjectId_is_valid (menu_item_id item) \<and>
    find_one (db ''menuitem'') [(''_id'', VStr (menu_item_id item))] = None \<longrightarrow>
      place_order rt payload db =
        (Inl (HTTPException 404 (''Menu item not found: '' @ menu_item_id item)), db))"
proof (intro conjI impI)
  show "fst (place_order rt payload db) \<noteq> Inl (HTTPException 400 detail)"
    using order_loop_not_400 [of rt "db ''menuitem''" "items payload" "Fin False 0" detail]
    by (cases "order_loop rt (db ''menuitem'') (items payload) (Fin False 0)")
       (auto simp: place_order_Inl place_order_Inr)
next
  obtain r where r: "lookup_id (db ''restaurant'') (restaurant_id mp) = Inr r"
    using lookup_id_Inr by blast
  show "fst (create_menu_item rt mp db) \<noteq> Inl (HTTPException 400 detail)"
    by (simp add: create_menu_item_def r create_document_def Let_def split: option.splits)
next
  assume "\<not> ObjectId_is_valid (restaurant_id mp) \<and>
    find_one (db ''restaurant'') [(''_id'', VStr (restaurant_id mp))] = None"
  then show "create_menu_item rt mp db = (Inl (HTTPException 404 ''Restaurant not found''), db)"
    by (simp add: create_menu_item_def lookup_id_def truthy_def)
next
  assume h: "items payload = item # rest \<and> \<not> ObjectId_is_valid (menu_item_id item) \<and>
    find_one (db ''menuitem'') [(''_id'', VStr (menu_item_id item))] = None"
  then have "\<not> resolves (db ''menuitem'') item"
    by (simp add: resolves_def lookup_id_def)
  then have "order_loop rt (db ''menuitem'') (items payload) (Fin False 0) =
      Inl (HTTPException 404 (''Menu item not found: '' @ menu_item_id item))"
    using h by (simp add: order_loop_step_unresolved del: order_loop.simps)
  then show "place_order rt payload db =
        (Inl (HTTPException 404 (''Menu item not found: '' @ menu_item_id item)), db)"
    by (rule place_order_Inl)
qed

text \<open>
  On the example store, for the malformed identifier \<^verbatim>\<open>not-an-id\<close>.
\<close>

theorem malformed_identifier_not_found_witness:
  "\<not> ObjectId_is_valid (restaurant_id (ex_menu_item ''not-an-id'')) \<and>
   find_one (ex_db ''restaurant'') [(''_id'', VStr (restaurant_id (ex_menu_item ''not-an-id'')))] = None \<and>
   create_menu_item ex_rt (ex_menu_item ''not-an-id'') ex_db =
     (Inl (HTTPException 404 ''Restaurant not found''), ex_db) \<and>
   place_order ex_rt (ex_order [\<lparr>menu_item_id = ''not-an-id'', quantity = 1\<rparr>]) ex_db =
     (Inl (HTTPException 404 ''Menu item not found: not-an-id''), ex_db)"
proof -
  have a: "\<not> ObjectId_is_valid (restaurant_id (ex_menu_item ''not-an-id''))"
    by (simp add: ex_menu_item_def ex_invalid)
  have b: "find_one (ex_db ''restaurant'')
      [(''_id'', VStr (restaurant_id (ex_menu_item ''not-an-id'')))] = None"
    by (simp add: ex_menu_item_def ex_find_none)
  have c: "items (ex_order [\<lparr>menu_item_id = ''not-an-id'', quantity = 1\<rparr>]) =
      \<lparr>menu_item_id = ''not-an-id'', quantity = 1\<rparr> # []"
    by (simp add: ex_order_def)
  from malformed_identifier_not_found [of ex_rt
      "ex_order [\<lparr>menu_item_id = ''not-an-id'', quantity = 1\<rparr>]" ex_db "''x''"
      "ex_menu_item ''not-an-id''" "\<lparr>menu_item_id = ''not-an-id'', quantity = 1\<rparr>" "[]"]
    a b c
  show ?thesis by (simp add: ex_invalid ex_find_none)
qed

text \<open>
  The malformed identifier \<^verbatim>\<open>not-an-id\<close> is answered with 404 by both endpoints, not
  with 400.
\<close>

theorem malformed_identifier_counterexample:
  "\<not> ObjectId_is_valid ''not-an-id'' \<and>
   fst (place_order ex_rt (ex_order [\<lparr>menu_item_id = ''not-an-id'', quantity = 1\<rparr>]) ex_db) =
     Inl (HTTPException 404 ''Menu item not found: not-an-id'') \<and>
   fst (create_menu_item ex_rt (ex_menu_item ''not-an-id'') ex_db) =
     Inl (HTTPException 404 ''Restaurant not found'')"
  by (simp add: ex_invalid place_order_def create_menu_item_def ex_order_def ex_menu_item_def
      lookup_id_def ex_find_none truthy_def)

subsection \<open>The persisted order\<close>

text \<open>
  C7. When \<^verbatim>\<open>place_order\<close> succeeds, the response is the generated identifier, the
  total and the status \<^verbatim>\<open>placed\<close>; the store differs from the one before by exactly one
  document appended to the order collection, which carries the customer name, the address,
  the restaurant identifier, the lines in their order, the same total and the status
  \<^verbatim>\<open>placed\<close>; every other collection is unchanged.
\<close>

theorem place_order_success_effect:
  assumes "place_order rt payload db = (Inr resp, db')"
  shows "\<exists>t. resp = [(''id'', new_id rt db), (''total'', VFloat t), (''status'', VStr ''placed'')] \<and>
     db' = db(''order'' := db ''order'' @
        [[(''_id'', new_id rt db),
          (''customer_name'', VStr (customer_name payload)),
          (''address'', VStr (address payload)),
          (''restaurant_id'', VStr (order_restaurant_id payload)),
          (''items'', VList (map (\<lambda>i. VDict [(''menu_item_id'', VStr (menu_item_id i)),
                                              (''quantity'', VInt (quantity i))]) (items payload))),
          (''total'', VFloat t),
          (''status'', VStr ''placed'')]]) \<and>
     (\<forall>c. c \<noteq> ''order'' \<longrightarrow> db' c = db c) \<and>
     length (db' ''order'') = length (db ''order'') + 1"
proof (cases "order_loop rt (db ''menuitem'') (items payload) (Fin False 0)")
  case (Inl e)
  with assms show ?thesis by (simp add: place_order_Inl)
next
  case (Inr tot)
  from place_order_Inr [of rt db payload tot] Inr assms show ?thesis
    by (intro exI [of _ "py_round tot 2"]) auto
qed

text \<open>
  On the example store, for the order of two lines of three soups.
\<close>

theorem place_order_success_effect_witness:
  "place_order ex_rt (ex_order [\<lparr>menu_item_id = ''m1'', quantity = 3\<rparr>,
                                \<lparr>menu_item_id = ''m1'', quantity = 3\<rparr>]) ex_db =
     (Inr [(''id'', new_id ex_rt ex_db), (''total'', VFloat (float_lit (5994 / 100))),
           (''status'', VStr ''placed'')],
      snd (place_order ex_rt (ex_order [\<lparr>menu_item_id = ''m1'', quantity = 3\<rparr>,
                                        \<lparr>menu_item_id = ''m1'', quantity = 3\<rparr>]) ex_db)) \<and>
   snd (place_order ex_rt (ex_order [\<lparr>menu_item_id = ''m1'', quantity = 3\<rparr>,
                                     \<lparr>menu_item_id = ''m1'', quantity = 3\<rparr>]) ex_db) ''menuitem'' =
     ex_db ''menuitem'' \<and>
   length (snd (place_order ex_rt (ex_order [\<lparr>menu_item_id = ''m1'', quantity = 3\<rparr>,
                                     \<lparr>menu_item_id = ''m1'', quantity = 3\<rparr>]) ex_db) ''order'') =
     length (ex_db ''order'') + 1"
proof -
  let ?p = "ex_order [\<lparr>menu_item_id = ''m1'', quantity = 3\<rparr>,
                      \<lparr>menu_item_id = ''m1'', quantity = 3\<rparr>]"
  let ?resp = "[(''id'', new_id ex_rt ex_db), (''total'', VFloat (float_lit (5994 / 100))),
           (''status'', VStr ''placed'')]"
  have e: "place_order ex_rt ?p ex_db = (Inr ?resp, snd (place_order ex_rt ?p ex_db))"
    by (simp only: ex_order_result snd_conv)
  from place_order_success_effect [where rt = ex_rt and payload = ?p and db = ex_db
      and resp = ?resp and db' = "snd (place_order ex_rt ?p ex_db)"] e
  show ?thesis by auto
qed

text \<open>
  C3, as the code has it. \<^verbatim>\<open>place_order\<close> does not constrain the number of lines:
  a request with an empty list of lines is accepted, and an order with no lines, the total
  \<open>0.0\<close> and the status \<^verbatim>\<open>placed\<close> is persisted and returned.
\<close>

theorem place_order_empty_items:
  assumes "items payload = []"
  shows "place_order rt payload db =
    (Inr [(''id'', new_id rt db), (''total'', VFloat (Fin False 0)), (''status'', VStr ''placed'')],
     db(''order'' := db ''order'' @
        [[(''_id'', new_id rt db),
          (''customer_name'', VStr (customer_name payload)),
          (''address'', VStr (address payload)),
          (''restaurant_id'', VStr (order_restaurant_id payload)),
          (''items'', VList []),
          (''total'', VFloat (Fin False 0)),
          (''status'', VStr ''placed'')]]))"
  using place_order_Inr [of rt db payload "Fin False 0"] assms
  by (simp add: py_round_zero)

text \<open>
  On the example store.
\<close>

theorem place_order_empty_items_witness:
  "items (ex_order []) = [] \<and>
   fst (place_order ex_rt (ex_order []) ex_db) =
     Inr [(''id'', new_id ex_rt ex_db), (''total'', VFloat (Fin False 0)),
          (''status'', VStr ''placed'')] \<and>
   length (snd (place_order ex_rt (ex_order []) ex_db) ''order'') = 1"
proof -
  have h: "items (ex_order []) = []" by (simp add: ex_order_def)
  show ?thesis
    using h place_order_empty_items [OF h, of ex_rt ex_db]
    by (simp add: ex_db_def)
qed

text \<open>
  A request without lines against an empty store is not rejected: the order is written.
\<close>

theorem empty_order_counterexample:
  "fst (place_order ex_rt2 (ex_order2 []) (\<lambda>c. [])) =
     Inr [(''id'', VStr ''order-7''), (''total'', VFloat (Fin False 0)),
          (''status'', VStr ''placed'')] \<and>
   snd (place_order ex_rt2 (ex_order2 []) (\<lambda>c. [])) ''order'' =
     [[(''_id'', VStr ''order-7''), (''customer_name'', VStr ''Bob''),
       (''address'', VStr ''9 Side Rd''), (''restaurant_id'', VStr ''r2''),
       (''items'', VList []), (''total'', VFloat (Fin False 0)),
       (''status'', VStr ''placed'')]]"
  by (simp add: place_order_def ex_order2_def ex_rt2_def create_document_def dict_get_def
      py_round_zero Let_def)

end
